theory Spec2Isabelle
  imports Main "HOL-Library.Word" "HOL-Library.Signed_Division"
begin

section \<open>Go values used by the programs\<close>

text \<open>
  Go's \<^verbatim>\<open>int\<close> is a two's complement machine integer; on the 64-bit platforms it
  has 64 bits. Arithmetic wraps around, which is what \<open>64 word\<close> does; \<open>sint\<close>
  reads the signed value.
\<close>

type_synonym go_int = "64 word"

text \<open>The most negative \<^verbatim>\<open>int\<close> (\<^verbatim>\<open>math.MinInt64\<close>).\<close>

definition MinInt :: go_int where
  "MinInt = - (2 ^ 63)"

text \<open>
  An \<^verbatim>\<open>error\<close> value is observed only through its method \<^verbatim>\<open>Error() string\<close>.
  \<^verbatim>\<open>errors.New(text)\<close> builds the value whose \<^verbatim>\<open>Error()\<close> is \<^verbatim>\<open>text\<close>. The
  \<^verbatim>\<open>nil\<close> error is \<open>None\<close> of \<open>error option\<close>.
\<close>

datatype error = errorString string

fun error_Error :: "error \<Rightarrow> string" where
  "error_Error (errorString s) = s"

definition errors_New :: "string \<Rightarrow> error" where
  "errors_New text = errorString text"

text \<open>
  Run-time panics, of the language (division by zero, a method call on the nil error) and
  of net/http (\<^verbatim>\<open>invalid WriteHeader code\<close>, and the writer's internal check that the
  header was written): a result is \<open>Inl\<close> of one, or \<open>Inr\<close> of a value.
\<close>

datatype panic = DivideByZero | NilDereference | InvalidWriteHeaderCode go_int | HeaderNotWritten

text \<open>
  Integer division \<^verbatim>\<open>x / y\<close> and remainder \<^verbatim>\<open>x % y\<close> on \<^verbatim>\<open>int\<close>: a zero divisor
  panics; otherwise the quotient is truncated towards zero (\<open>sdiv\<close> and \<open>smod\<close>
  on the signed values) and stored back into 64 bits.
\<close>

definition int_quo :: "go_int \<Rightarrow> go_int \<Rightarrow> panic + go_int" where
  "int_quo x y = (if y = 0 then Inl DivideByZero else Inr (word_of_int (sint x sdiv sint y)))"

definition int_rem :: "go_int \<Rightarrow> go_int \<Rightarrow> panic + go_int" where
  "int_rem x y = (if y = 0 then Inl DivideByZero else Inr (word_of_int (sint x smod sint y)))"

subsection \<open>Standard output and the fmt package\<close>

text \<open>
  Standard output is the text printed so far; every print appends to it. An \<^verbatim>\<open>int\<close>
  prints under \<^verbatim>\<open>%v\<close> as its signed decimal numeral.
\<close>

type_synonym stdout = string

definition digit_char :: "nat \<Rightarrow> char" where
  "digit_char n = ''0123456789'' ! n"

function format_nat :: "nat \<Rightarrow> string" where
  "format_nat n =
     (if n < 10 then [digit_char n] else format_nat (n div 10) @ [digit_char (n mod 10)])"
  by pat_completeness auto
termination
  by (relation "measure id") auto

declare format_nat.simps [simp del]

definition format_int :: "go_int \<Rightarrow> string" where
  "format_int x =
     (if sint x < 0 then CHR ''-'' # format_nat (nat (- sint x)) else format_nat (nat (sint x)))"

text \<open>\<^verbatim>\<open>fmt.Println(s)\<close> for one string operand: the string and a newline.\<close>

definition Println :: "string \<Rightarrow> stdout \<Rightarrow> stdout" where
  "Println s out = out @ s @ ''\<newline>''"

text \<open>
  \<^verbatim>\<open>fmt.Printf(format, args...)\<close> with \<^verbatim>\<open>int\<close> operands, on the fragment of
  formats that the program uses: text is copied, and each \<^verbatim>\<open>%v\<close> prints the next operand
  (the marker \<^verbatim>\<open>%!v(MISSING)\<close> when none is left). The program's formats hold no other
  verb, and a format that does is outside this fragment.
\<close>

fun Sprintf :: "string \<Rightarrow> go_int list \<Rightarrow> string" where
  "Sprintf [] args = []"
| "Sprintf [c] args = [c]"
| "Sprintf (c # d # fmt) args =
     (if c = CHR ''%'' \<and> d = CHR ''v'' then
        (case args of
           [] \<Rightarrow> ''%!v(MISSING)'' @ Sprintf fmt []
         | a # rest \<Rightarrow> format_int a @ Sprintf fmt rest)
      else c # Sprintf (d # fmt) args)"

definition Printf :: "string \<Rightarrow> go_int list \<Rightarrow> stdout \<Rightarrow> stdout" where
  "Printf fmt args out = out @ Sprintf fmt args"

section \<open>Tutorial 2: integer division with an error result\<close>

text \<open>
  \<^verbatim>\<open>
  func printMe(printValue string) {
      fmt.Println(printValue)
  }
  \<close>
\<close>

definition printMe :: "string \<Rightarrow> stdout \<Rightarrow> stdout" where
  "printMe printValue out = Println printValue out"

text \<open>
  \<^verbatim>\<open>
  func intDivision(numerator int, denominator int) (int, int, error) {
      var err error
      if denominator==0{
          err = errors.New("Cannot devide by Zero")
          return 0,0,err
      }
      var result int = numerator / denominator
      var remainder int = numerator%denominator
      return result, remainder, err
  }
  \<close>
\<close>

definition intDivision :: "go_int \<Rightarrow> go_int \<Rightarrow> panic + (go_int \<times> go_int \<times> error option)" where
  "intDivision numerator denominator =
     (let err = None in
      if denominator = 0 then
        (let err = Some (errors_New ''Cannot devide by Zero'') in Inr (0, 0, err))
      else
        (case int_quo numerator denominator of
           Inl p \<Rightarrow> Inl p
         | Inr result \<Rightarrow>
            (case int_rem numerator denominator of
               Inl p \<Rightarrow> Inl p
             | Inr remainder \<Rightarrow> Inr (result, remainder, err))))"

text \<open>
  The \<^verbatim>\<open>switch\<close> of \<^verbatim>\<open>main\<close> on the three results of the division:
  \<^verbatim>\<open>
  switch {
      case err != nil:
          fmt.Printf(err.Error() + "\n")
      case reminder == 0:
          fmt.Printf("The result of the integer division is %v\n", result)
      default:
          fmt.Printf("The result of the integer division is %v with remainder %v\n", result, reminder)
  }
  \<close>
\<close>

definition main_switch :: "go_int \<Rightarrow> go_int \<Rightarrow> error option \<Rightarrow> stdout \<Rightarrow> stdout" where
  "main_switch result reminder err out =
     (case err of
        Some e \<Rightarrow> Printf (error_Error e @ ''\<newline>'') [] out
      | None \<Rightarrow>
          if reminder = 0 then
            Printf ''The result of the integer division is %v\<newline>'' [result] out
          else
            Printf ''The result of the integer division is %v with remainder %v\<newline>''
              [result, reminder] out)"

text \<open>
  \<^verbatim>\<open>
  func main () {
      var printValue string = "Hello World"
      printMe(printValue)

      numerator := 10
      denominator := 2
      var result, reminder, err = intDivision(numerator, denominator)

      switch { ... }
  }
  \<close>
\<close>

definition main :: "stdout \<Rightarrow> panic + stdout" where
  "main out =
     (let printValue = ''Hello World'';
          out = printMe printValue out;
          numerator = 10;
          denominator = 2
      in case intDivision numerator denominator of
           Inl p \<Rightarrow> Inl p
         | Inr (result, reminder, err) \<Rightarrow> Inr (main_switch result reminder err out))"

section \<open>The standard library as the API fragment uses it\<close>

subsection \<open>encoding/json\<close>

text \<open>
  The JSON text that \<^verbatim>\<open>encoding/json\<close> produces for a string, as the package documents
  it for Go 1.22 and later: the string is put in double quotes; a quote or a backslash gets
  a backslash before it; backspace, form feed, newline, carriage return and tab are written
  \<^verbatim>\<open>\b \f \n \r \t\<close>; the other control characters and \<^verbatim>\<open>< > &\<close> are written
  \<^verbatim>\<open>\u00XX\<close>; a byte that does not start well-formed UTF-8 is written as the escape of
  U+FFFD; the line and paragraph separators U+2028 and U+2029 are written as their escapes; every other
  character is copied.
\<close>

definition hex_char :: "nat \<Rightarrow> char" where
  "hex_char n = ''0123456789abcdef'' ! n"

definition json_escape_byte :: "char \<Rightarrow> string" where
  "json_escape_byte c =
     (let b = (of_char c :: nat) in
      if c = CHR 0x5C \<or> c = CHR 0x22 then [CHR 0x5C, c]
      else if b = 8 then [CHR 0x5C, CHR ''b'']
      else if b = 12 then [CHR 0x5C, CHR ''f'']
      else if b = 10 then [CHR 0x5C, CHR ''n'']
      else if b = 13 then [CHR 0x5C, CHR ''r'']
      else if b = 9 then [CHR 0x5C, CHR ''t'']
      else if b < 32 \<or> c = CHR ''<'' \<or> c = CHR ''>'' \<or> c = CHR ''&'' then
        [CHR 0x5C, CHR ''u'', CHR ''0'', CHR ''0'', hex_char (b div 16), hex_char (b mod 16)]
      else [c])"

text \<open>
  The length in bytes of the well-formed UTF-8 sequence at the head of a byte string
  (2, 3 or 4 for a head byte of \<open>0x80\<close> or more), and 0 when there is none.
\<close>

definition utf8_cont :: "nat \<Rightarrow> bool" where
  "utf8_cont b = (128 \<le> b \<and> b \<le> 191)"

definition rune_len :: "nat list \<Rightarrow> nat" where
  "rune_len bs =
     (case bs of
        [] \<Rightarrow> 0
      | b0 # r \<Rightarrow>
          if 194 \<le> b0 \<and> b0 \<le> 223 then
            (case r of b1 # _ \<Rightarrow> if utf8_cont b1 then 2 else 0 | _ \<Rightarrow> 0)
          else if 224 \<le> b0 \<and> b0 \<le> 239 then
            (case r of
               b1 # b2 # _ \<Rightarrow>
                 if (if b0 = 224 then 160 else 128) \<le> b1 \<and>
                    b1 \<le> (if b0 = 237 then 159 else 191) \<and> utf8_cont b2
                 then 3 else 0
             | _ \<Rightarrow> 0)
          else if 240 \<le> b0 \<and> b0 \<le> 244 then
            (case r of
               b1 # b2 # b3 # _ \<Rightarrow>
                 if (if b0 = 240 then 144 else 128) \<le> b1 \<and>
                    b1 \<le> (if b0 = 244 then 143 else 191) \<and> utf8_cont b2 \<and> utf8_cont b3
                 then 4 else 0
             | _ \<Rightarrow> 0)
          else 0)"

fun json_string_body :: "string \<Rightarrow> string" where
  "json_string_body [] = []"
| "json_string_body (c # cs) =
     (if (of_char c :: nat) < 128 then json_escape_byte c @ json_string_body cs
      else
        (let n = rune_len (map of_char (c # cs)) in
         if n = 0 then CHR 0x5C # ''ufffd'' @ json_string_body cs
         else if c = CHR 0xE2 \<and> take 2 cs = [CHR 0x80, CHR 0xA8] then
           CHR 0x5C # ''u2028'' @ json_string_body (drop 2 cs)
         else if c = CHR 0xE2 \<and> take 2 cs = [CHR 0x80, CHR 0xA9] then
           CHR 0x5C # ''u2029'' @ json_string_body (drop 2 cs)
         else c # take (n - 1) cs @ json_string_body (drop (n - 1) cs)))"

definition json_quote :: "string \<Rightarrow> string" where
  "json_quote s = CHR 0x22 # json_string_body s @ [CHR 0x22]"

subsection \<open>net/http\<close>

definition StatusOK :: go_int where
  "StatusOK = 200"

definition StatusBadRequest :: go_int where
  "StatusBadRequest = 400"

definition StatusInternalServerError :: go_int where
  "StatusInternalServerError = 500"

text \<open>
  \<^verbatim>\<open>Header.Set\<close> stores a value under the canonical form of its key
  (\<^verbatim>\<open>textproto.CanonicalMIMEHeaderKey\<close>): the first letter and every letter after a
  hyphen in upper case, the others in lower case; a key holding a byte that is not a
  header token byte is kept as it is.
\<close>

definition validHeaderFieldByte :: "char \<Rightarrow> bool" where
  "validHeaderFieldByte c =
     (let b = (of_char c :: nat) in
      (48 \<le> b \<and> b \<le> 57) \<or> (65 \<le> b \<and> b \<le> 90) \<or> (97 \<le> b \<and> b \<le> 122) \<or>
      b \<in> set [33, 35, 36, 37, 38, 39, 42, 43, 45, 46, 94, 95, 96, 124, 126])"

definition to_upper :: "char \<Rightarrow> char" where
  "to_upper c =
     (let b = (of_char c :: nat) in if 97 \<le> b \<and> b \<le> 122 then char_of (b - 32) else c)"

definition to_lower :: "char \<Rightarrow> char" where
  "to_lower c =
     (let b = (of_char c :: nat) in if 65 \<le> b \<and> b \<le> 90 then char_of (b + 32) else c)"

fun canonical_from :: "bool \<Rightarrow> string \<Rightarrow> string" where
  "canonical_from upper [] = []"
| "canonical_from upper (c # cs) =
     (if upper then to_upper c else to_lower c) # canonical_from (c = CHR ''-'') cs"

definition CanonicalMIMEHeaderKey :: "string \<Rightarrow> string" where
  "CanonicalMIMEHeaderKey s =
     (if list_all validHeaderFieldByte s then canonical_from True s else s)"

text \<open>
  An \<^verbatim>\<open>http.ResponseWriter\<close> is an interface. The model is the writer that net/http's
  server hands to a handler, on a connection that is open and not hijacked, with the state
  that \<^verbatim>\<open>Header().Set\<close>, \<^verbatim>\<open>WriteHeader\<close> and \<^verbatim>\<open>Write\<close> read and change:
  \<^item> \<open>header\<close> is the map that \<^verbatim>\<open>w.Header()\<close> returns;
  \<^item> \<open>status\<close> is the status code of the response once its header is written, \<open>None\<close>
    before;
  \<^item> \<open>snapHeader\<close> is the copy of \<open>header\<close> taken when the header is written: later
    changes of \<open>header\<close> do not reach the response;
  \<^item> \<open>written\<close> counts the body bytes handed to \<^verbatim>\<open>Write\<close>, to compare them with the
    length that a \<^verbatim>\<open>Content-Length\<close> header among the fixed headers declares;
  \<^item> \<open>informational\<close> lists the 1xx responses sent before the final one;
  \<^item> \<open>body\<close> is the body accepted so far;
  \<^item> \<open>sniffed\<close> says that the server chooses the response's \<^verbatim>\<open>Content-Type\<close> itself, from
    the first bytes of the body, because the handler fixed none.
  What the server adds on the wire (the date, the framing of the body, no body in answer
  to a \<^verbatim>\<open>HEAD\<close> request) is not part of the record.
\<close>

record ResponseWriter =
  header :: "string \<rightharpoonup> string list"
  status :: "go_int option"
  snapHeader :: "string \<rightharpoonup> string list"
  written :: nat
  informational :: "(go_int \<times> (string \<rightharpoonup> string list)) list"
  body :: string
  sniffed :: bool

definition Header_Set :: "string \<Rightarrow> string \<Rightarrow> ResponseWriter \<Rightarrow> ResponseWriter" where
  "Header_Set key v w = w\<lparr>header := (header w)(CanonicalMIMEHeaderKey key \<mapsto> [v])\<rparr>"

text \<open>
  The first value stored under a key, or the empty string: \<open>header_get\<close> for a key that
  is canonical already, \<^verbatim>\<open>Header.Get\<close> for any key.
\<close>

definition header_get :: "(string \<rightharpoonup> string list) \<Rightarrow> string \<Rightarrow> string" where
  "header_get h key = (case h key of Some (v # _) \<Rightarrow> v | _ \<Rightarrow> [])"

definition Header_Get :: "(string \<rightharpoonup> string list) \<Rightarrow> string \<Rightarrow> string" where
  "Header_Get h key = header_get h (CanonicalMIMEHeaderKey key)"

text \<open>
  \<^verbatim>\<open>strconv.ParseInt(s, 10, 64)\<close>: an optional sign and one or more decimal digits, with a
  value that fits 64 bits; \<open>None\<close> for its errors.
\<close>

definition digit_value :: "char \<Rightarrow> nat option" where
  "digit_value c =
     (let b = (of_char c :: nat) in if 48 \<le> b \<and> b \<le> 57 then Some (b - 48) else None)"

fun parse_digits :: "nat \<Rightarrow> string \<Rightarrow> nat option" where
  "parse_digits acc [] = Some acc"
| "parse_digits acc (c # cs) =
     (case digit_value c of None \<Rightarrow> None | Some d \<Rightarrow> parse_digits (10 * acc + d) cs)"

definition ParseInt :: "string \<Rightarrow> int option" where
  "ParseInt s =
     (let neg = (s \<noteq> [] \<and> hd s = CHR ''-'');
          signed = (s \<noteq> [] \<and> (hd s = CHR ''-'' \<or> hd s = CHR ''+''));
          ds = (if signed then tl s else s)
      in if ds = [] then None
         else (case parse_digits 0 ds of
                 None \<Rightarrow> None
               | Some n \<Rightarrow>
                   if neg then (if n \<le> 2 ^ 63 then Some (- int n) else None)
                   else (if n < 2 ^ 63 then Some (int n) else None)))"

text \<open>
  \<^verbatim>\<open>WriteHeader(code)\<close>. Once the header is written a further call changes nothing. Otherwise
  a code below 100 or above 999 panics. A code from 100 to 199 other than 101 is sent at
  once as an informational response, with the headers set so far (without
  \<^verbatim>\<open>Content-Length\<close> and \<^verbatim>\<open>Transfer-Encoding\<close>), and the header still counts as not
  written. Any other code becomes the status of the response and fixes its headers. A
  \<^verbatim>\<open>Content-Length\<close> among them that is a number from 0 on is the declared length of
  the body (the server keeps the number; here it is read off the fixed headers, which do
  not change any more); one that is not such a number is deleted from \<open>header\<close>.
\<close>

definition declaredContentLength :: "(string \<rightharpoonup> string list) \<Rightarrow> nat option" where
  "declaredContentLength h =
     (let cl = header_get h ''Content-Length''
      in if cl = [] then None
         else (case ParseInt cl of
                 Some v \<Rightarrow> if 0 \<le> v then Some (nat v) else None
               | None \<Rightarrow> None))"

definition validWriteHeaderCode :: "go_int \<Rightarrow> bool" where
  "validWriteHeaderCode code = (100 \<le> sint code \<and> sint code \<le> 999)"

definition informationalCode :: "go_int \<Rightarrow> bool" where
  "informationalCode code = (100 \<le> sint code \<and> sint code \<le> 199 \<and> code \<noteq> 101)"

definition WriteHeader :: "go_int \<Rightarrow> ResponseWriter \<Rightarrow> panic + ResponseWriter" where
  "WriteHeader code w =
     (case status w of
        Some _ \<Rightarrow> Inr w
      | None \<Rightarrow>
          if \<not> validWriteHeaderCode code then Inl (InvalidWriteHeaderCode code)
          else if informationalCode code then
            Inr (w\<lparr>informational := informational w @
                   [(code, header w |` (- {''Content-Length'', ''Transfer-Encoding''}))]\<rparr>)
          else
            (let w = w\<lparr>status := Some code, snapHeader := header w\<rparr>
             in if header_get (header w) ''Content-Length'' \<noteq> [] \<and>
                   declaredContentLength (header w) = None
                then Inr (w\<lparr>header := (header w)(''Content-Length'' := None)\<rparr>)
                else Inr w))"

text \<open>
  \<^verbatim>\<open>Write(bs)\<close>. If the header is not written yet, it is written with \<^verbatim>\<open>StatusOK\<close>.
  Writing no bytes does nothing more. A response with a status from 100 to 199, 204 or 304
  has no body: the bytes are refused with \<^verbatim>\<open>ErrBodyNotAllowed\<close>. Bytes that go beyond a
  declared content length are counted and refused with \<^verbatim>\<open>ErrContentLength\<close>. Otherwise
  the bytes are appended to the body, and the server sniffs the content type if the headers
  fixed for the response hold no \<^verbatim>\<open>Content-Type\<close>, \<^verbatim>\<open>Content-Encoding\<close> or
  \<^verbatim>\<open>Transfer-Encoding\<close>.
\<close>

definition bodyAllowedForStatus :: "go_int \<Rightarrow> bool" where
  "bodyAllowedForStatus s = (\<not> (100 \<le> sint s \<and> sint s \<le> 199) \<and> s \<noteq> 204 \<and> s \<noteq> 304)"

definition ErrBodyNotAllowed :: error where
  "ErrBodyNotAllowed = errors_New ''http: request method or response status code does not allow body''"

definition ErrContentLength :: error where
  "ErrContentLength = errors_New ''http: wrote more than the declared Content-Length''"

definition sniffsContentType :: "(string \<rightharpoonup> string list) \<Rightarrow> bool" where
  "sniffsContentType h =
     (h ''Content-Type'' = None \<and> Header_Get h ''Content-Encoding'' = [] \<and>
      header_get h ''Transfer-Encoding'' = [])"

definition Write :: "string \<Rightarrow> ResponseWriter \<Rightarrow> panic + (ResponseWriter \<times> error option)" where
  "Write bs w =
     (case (case status w of None \<Rightarrow> WriteHeader StatusOK w | Some _ \<Rightarrow> Inr w) of
        Inl p \<Rightarrow> Inl p
      | Inr w \<Rightarrow>
          if bs = [] then Inr (w, None)
          else
            (case status w of
               None \<Rightarrow> Inl HeaderNotWritten
             | Some s \<Rightarrow>
                 if \<not> bodyAllowedForStatus s then Inr (w, Some ErrBodyNotAllowed)
                 else
                   (let w = w\<lparr>written := written w + length bs\<rparr> in
                    if (case declaredContentLength (snapHeader w) of
                          Some n \<Rightarrow> n < written w
                        | None \<Rightarrow> False)
                    then Inr (w, Some ErrContentLength)
                    else Inr (w\<lparr>body := body w @ bs,
                                sniffed := sniffsContentType (snapHeader w)\<rparr>, None))))"

text \<open>A writer as the server hands it to a handler: nothing set, nothing written.\<close>

definition fresh_writer :: ResponseWriter where
  "fresh_writer =
     \<lparr>header = Map.empty, status = None, snapHeader = Map.empty, written = 0,
      informational = [], body = [], sniffed = False\<rparr>"

section \<open>The API fragment\<close>

text \<open>
  \<^verbatim>\<open>
  type Error struct {
      // Error code
      Code int

      // Error message
      Message string
  }
  \<close>
\<close>

record Error =
  Code :: go_int
  Message :: string

text \<open>
  \<^verbatim>\<open>json.Marshal\<close> of an \<^verbatim>\<open>Error\<close>: an object with the fields in the order of their
  declaration, under their names. \<^verbatim>\<open>Encoder.Encode\<close> writes that text and a newline
  with one \<^verbatim>\<open>Write\<close>, and returns the error of that \<^verbatim>\<open>Write\<close>.
\<close>

definition json_Marshal :: "Error \<Rightarrow> string" where
  "json_Marshal v =
     ''{'' @ json_quote ''Code'' @ '':'' @ format_int (Code v) @ '','' @
     json_quote ''Message'' @ '':'' @ json_quote (Message v) @ ''}''"

definition Encoder_Encode :: "Error \<Rightarrow> ResponseWriter \<Rightarrow> panic + (ResponseWriter \<times> error option)" where
  "Encoder_Encode v w = Write (json_Marshal v @ ''\<newline>'') w"

text \<open>
  \<^verbatim>\<open>
  func writeError(w http.ResponseWriter, message string, code int) {
      resp := Error {
          Code: code,
          Message: message,
      }

      w.Header().Set("Content-type", "application/json")
      w.WriteHeader(code)

      json.NewEncoder(w).Encode(resp)
  }
  \<close>
  A panic of \<^verbatim>\<open>WriteHeader\<close> ends the function before \<^verbatim>\<open>Encode\<close>; the error that
  \<^verbatim>\<open>Encode\<close> returns is dropped.
\<close>

definition writeError :: "ResponseWriter \<Rightarrow> string \<Rightarrow> go_int \<Rightarrow> panic + ResponseWriter" where
  "writeError w message code =
     (let resp = \<lparr>Code = code, Message = message\<rparr>;
          w = Header_Set ''Content-type'' ''application/json'' w
      in case WriteHeader code w of
           Inl p \<Rightarrow> Inl p
         | Inr w \<Rightarrow>
             (case Encoder_Encode resp w of
                Inl p \<Rightarrow> Inl p
              | Inr (w, _) \<Rightarrow> Inr w))"

text \<open>
  \<^verbatim>\<open>
  RequestErrorHandler = func (w http.ResponseWriter, err error) {
      writeError(w, err.Error(), http.StatusBadRequest)
  }
  InternalErrorHandler = func (w http.ResponseWriter) {
      writeError(w, "An Unexpected error ocurred", http.StatusInternalServerError)
  }
  \<close>
  Calling \<^verbatim>\<open>err.Error()\<close> on the nil error panics.
\<close>

definition RequestErrorHandler :: "ResponseWriter \<Rightarrow> error option \<Rightarrow> panic + ResponseWriter" where
  "RequestErrorHandler w err =
     (case err of
        None \<Rightarrow> Inl NilDereference
      | Some e \<Rightarrow> writeError w (error_Error e) StatusBadRequest)"

definition InternalErrorHandler :: "ResponseWriter \<Rightarrow> panic + ResponseWriter" where
  "InternalErrorHandler w =
     writeError w ''An Unexpected error ocurred'' StatusInternalServerError"

section \<open>Reference semantics of integer division\<close>

text \<open>
  The quotient of two mathematical integers truncated towards zero, written out from
  magnitudes and signs. The Go language defines \<^verbatim>\<open>x / y\<close> as this quotient and
  \<^verbatim>\<open>x % y\<close> as \<open>x - y * q\<close>, with one exception: the most negative value divided
  by \<open>-1\<close> overflows, and then the quotient is \<open>x\<close> itself and the remainder 0.
\<close>

definition trunc_quot :: "int \<Rightarrow> int \<Rightarrow> int" where
  "trunc_quot x y =
     (if (x < 0) = (y < 0) then \<bar>x\<bar> div \<bar>y\<bar> else - (\<bar>x\<bar> div \<bar>y\<bar>))"

section \<open>Signed division on 64-bit values\<close>

lemma sdiv_trunc_quot: "y \<noteq> 0 \<Longrightarrow> x sdiv y = trunc_quot x y"
  by (auto simp: signed_divide_int_def trunc_quot_def sgn_if)

lemma sint_bounds: "- (2 ^ 63) \<le> sint (x :: go_int)" "sint (x :: go_int) < 2 ^ 63"
  using sint_ge [of x] sint_lt [of x] by simp_all

lemma sint_MinInt: "sint MinInt = - (2 ^ 63)"
  by (simp add: MinInt_def)

lemma sint_eq_MinInt: "(sint (x::go_int) = - (2 ^ 63)) = (x = MinInt)"
proof
  assume "sint x = - (2 ^ 63)"
  then have "sint x = sint MinInt" by (simp add: sint_MinInt)
  then have "word_of_int (sint x) = (word_of_int (sint MinInt) :: go_int)" by simp
  then show "x = MinInt" by simp
next
  assume "x = MinInt" then show "sint x = - (2 ^ 63)" by (simp add: sint_MinInt)
qed

lemma smod_bounds: "y \<noteq> 0 \<Longrightarrow> \<bar>x smod y\<bar> < \<bar>y\<bar>" for x y :: int
  using smod_int_range [of y x] by auto

lemma abs_sdiv: "\<bar>x sdiv y\<bar> = \<bar>x\<bar> div \<bar>y\<bar>" for x y :: int
proof -
  have "0 \<le> \<bar>x\<bar> div \<bar>y\<bar>" by (simp add: div_int_pos_iff)
  then show ?thesis
    by (cases "x = 0"; cases "y = 0") (simp_all add: signed_divide_int_def abs_mult)
qed

lemma sdiv_in_range:
  fixes a b :: int
  assumes a: "- (2 ^ 63) \<le> a" "a < 2 ^ 63" and b: "b \<noteq> 0" and nov: "\<not> (a = - (2 ^ 63) \<and> b = - 1)"
  shows "- (2 ^ 63) \<le> a sdiv b \<and> a sdiv b < 2 ^ 63"
proof -
  consider "b = - 1" | "b = 1" | "2 \<le> \<bar>b\<bar>" using b by linarith
  then show ?thesis
  proof cases
    case 1
    with a nov show ?thesis by simp
  next
    case 2
    with a show ?thesis by simp
  next
    case 3
    have "\<bar>a\<bar> div \<bar>b\<bar> \<le> \<bar>a\<bar> div 2"
      using 3 by (intro zdiv_mono2) auto
    also have "\<dots> < 2 ^ 63" using a by auto
    finally have "\<bar>a sdiv b\<bar> < 2 ^ 63" by (simp add: abs_sdiv)
    then show ?thesis by auto
  qed
qed

lemma sint_eq_0_iff: "(sint (x::go_int) = 0) = (x = 0)"
  by (simp add: signed_eq_0_iff)

lemma sint_of_in_range:
  "- (2 ^ 63) \<le> k \<Longrightarrow> k < 2 ^ 63 \<Longrightarrow> sint (word_of_int k :: go_int) = k"
  by (simp add: sint_sbintrunc' signed_take_bit_int_eq_self)

lemma smod_in_range:
  fixes a b :: int
  assumes "- (2 ^ 63) \<le> b" "b < 2 ^ 63" "b \<noteq> 0"
  shows "- (2 ^ 63) \<le> a smod b \<and> a smod b < 2 ^ 63"
  using smod_bounds [of b a] assms by auto

lemma int_quo_sint:
  assumes "y \<noteq> 0" "\<not> (x = MinInt \<and> y = - 1)"
  shows "\<exists>q. int_quo x y = Inr q \<and> sint q = sint x sdiv sint y"
proof -
  have "sint y \<noteq> 0" using assms(1) by (simp add: sint_eq_0_iff)
  moreover have "\<not> (sint x = - (2 ^ 63) \<and> sint y = - 1)"
  proof
    assume h: "sint x = - (2 ^ 63) \<and> sint y = - 1"
    then have "x = MinInt" using sint_eq_MinInt [of x] by simp
    moreover from h have "sint y = sint (- 1 :: go_int)" by simp
    then have "word_of_int (sint y) = (word_of_int (sint (- 1 :: go_int)) :: go_int)" by simp
    then have "y = - 1" by simp
    ultimately show False using assms(2) by simp
  qed
  ultimately have "- (2 ^ 63) \<le> sint x sdiv sint y \<and> sint x sdiv sint y < 2 ^ 63"
    using sdiv_in_range [of "sint x" "sint y"] sint_bounds [of x] by simp
  then show ?thesis using assms(1) by (simp add: int_quo_def sint_of_in_range)
qed

lemma int_rem_sint:
  assumes "y \<noteq> 0"
  shows "\<exists>r. int_rem x y = Inr r \<and> sint r = sint x smod sint y"
proof -
  have "sint y \<noteq> 0" using assms by (simp add: sint_eq_0_iff)
  then have "- (2 ^ 63) \<le> sint x smod sint y \<and> sint x smod sint y < 2 ^ 63"
    using smod_in_range [of "sint y" "sint x"] sint_bounds [of y] by simp
  then show ?thesis using assms by (simp add: int_rem_def sint_of_in_range)
qed

lemma int_quo_overflow: "int_quo MinInt (- 1) = Inr MinInt"
  by (simp add: int_quo_def MinInt_def)

lemma int_rem_overflow: "int_rem MinInt (- 1) = Inr 0"
  by (simp add: int_rem_def MinInt_def signed_modulo_int_def)

lemma smod_eq_minus: "a smod b = a - b * (a sdiv b)" for a b :: int
  by (simp add: minus_mult_sdiv_eq_smod)

lemma word_quo_rem:
  "(word_of_int (sint x sdiv sint y) :: go_int) * y + word_of_int (sint x smod sint y) = x"
proof -
  have "(word_of_int (sint x sdiv sint y) :: go_int) * word_of_int (sint y) + word_of_int (sint x smod sint y)
        = word_of_int (sint x sdiv sint y * sint y + sint x smod sint y)"
    by simp
  also have "\<dots> = word_of_int (sint x)" by (simp only: sdiv_mult_smod_eq)
  finally show ?thesis by simp
qed

lemma smod_sign: "a smod b = 0 \<or> (a smod b < 0) = (a < 0)" for a b :: int
proof -
  have "0 \<le> \<bar>a\<bar> mod \<bar>b\<bar>"
    by (cases "b = 0") simp_all
  then show ?thesis
    by (auto simp: signed_modulo_int_def sgn_if)
qed

section \<open>Properties of intDivision\<close>

text \<open>
  C1. For every numerator and every nonzero denominator, \<open>intDivision\<close> returns (it does
  not panic) the quotient and remainder of Go's integer division together with a nil
  error: the quotient is the mathematical quotient truncated towards zero and the
  remainder is \<open>x - y * q\<close>; for the one overflowing pair, \<open>MinInt\<close> and \<open>-1\<close>, the
  quotient is the numerator and the remainder is 0, as the language defines it.
\<close>

theorem intDivision_correct:
  assumes "denominator \<noteq> 0"
  shows "\<exists>q r. intDivision numerator denominator = Inr (q, r, None) \<and>
     (if numerator = MinInt \<and> denominator = - 1 then q = numerator \<and> r = 0
      else sint q = trunc_quot (sint numerator) (sint denominator) \<and>
           sint r = sint numerator - sint denominator * trunc_quot (sint numerator) (sint denominator))"
proof (cases "numerator = MinInt \<and> denominator = - 1")
  case True
  then show ?thesis
    by (simp add: intDivision_def int_quo_overflow int_rem_overflow)
next
  case False
  have nz: "sint denominator \<noteq> 0" using assms by (simp add: sint_eq_0_iff)
  obtain q where q: "int_quo numerator denominator = Inr q"
      "sint q = sint numerator sdiv sint denominator"
    using int_quo_sint [OF assms False] by blast
  obtain r where r: "int_rem numerator denominator = Inr r"
      "sint r = sint numerator smod sint denominator"
    using int_rem_sint [OF assms] by blast
  have "intDivision numerator denominator = Inr (q, r, None)"
    using assms q(1) r(1) by (simp add: intDivision_def)
  moreover have "sint q = trunc_quot (sint numerator) (sint denominator)"
    using q(2) nz by (simp add: sdiv_trunc_quot)
  moreover have "sint r = sint numerator - sint denominator * trunc_quot (sint numerator) (sint denominator)"
    using r(2) nz by (simp add: smod_eq_minus sdiv_trunc_quot)
  ultimately show ?thesis using False by auto
qed

theorem intDivision_correct_witness:
  "(2 :: go_int) \<noteq> 0 \<and>
   intDivision (- 7) 2 = Inr (- 3, - 1, None) \<and>
   (\<exists>q r. intDivision (- 7) 2 = Inr (q, r, None) \<and> sint q = - 3 \<and> sint r = - 1)"
proof -
  have nz: "(2 :: go_int) \<noteq> 0" by simp
  have ev: "intDivision (- 7) 2 = Inr (- 3, - 1, None)"
    by (simp add: intDivision_def int_quo_def int_rem_def
        signed_divide_int_def signed_modulo_int_def)
  from intDivision_correct [OF nz, of "- 7"] ev nz show ?thesis
    by (simp add: trunc_quot_def MinInt_def)
qed

text \<open>
  C2. \<open>intDivision\<close> always returns (it never panics), and the error it returns is
  non-nil exactly when the denominator is zero.
\<close>

theorem intDivision_error_iff:
  "\<exists>q r err. intDivision numerator denominator = Inr (q, r, err) \<and>
     ((err \<noteq> None) = (denominator = 0))"
  by (simp add: intDivision_def int_quo_def int_rem_def)

text \<open>
  C7. With a zero denominator, \<open>intDivision\<close> returns quotient 0 and remainder 0
  together with an error whose message is exactly \<^verbatim>\<open>Cannot devide by Zero\<close>: nothing of a
  partial result is carried on the error path.
\<close>

theorem intDivision_zero_denominator:
  "\<exists>e. intDivision numerator 0 = Inr (0, 0, Some e) \<and> error_Error e = ''Cannot devide by Zero''"
  by (simp add: intDivision_def errors_New_def)

text \<open>
  C8, as stated: the returned quotient and remainder satisfy
  \<open>numerator = quotient * denominator + remainder\<close> for every nonzero denominator. Over
  the integers this fails for the numerator \<open>MinInt\<close> and the denominator \<open>-1\<close>: the
  quotient overflows to \<open>MinInt\<close>, the remainder is 0, and
  \<open>MinInt * (-1) + 0\<close> is \<open>2 ^ 63\<close>, not \<open>MinInt\<close>.
\<close>

theorem intDivision_identity_overflow:
  "intDivision (- 9223372036854775808) (- 1) = Inr (- 9223372036854775808, 0, None) \<and>
   sint (- 9223372036854775808 :: go_int) \<noteq>
     sint (- 9223372036854775808 :: go_int) * sint (- 1 :: go_int) + sint (0 :: go_int)"
  by (simp add: intDivision_def int_quo_def int_rem_def signed_modulo_int_def)

text \<open>
  C8, amended: for every numerator and every nonzero denominator the returned quotient and
  remainder satisfy \<open>numerator = quotient * denominator + remainder\<close> in the wrap-around
  arithmetic of \<^verbatim>\<open>int\<close>, and over the integers too unless the numerator is \<open>MinInt\<close>
  and the denominator is \<open>-1\<close>; in every case \<open>\<bar>remainder\<bar> < \<bar>denominator\<bar>\<close>, and the
  remainder is zero or has the sign of the numerator.
\<close>

theorem intDivision_identity:
  assumes "denominator \<noteq> 0"
  shows "\<exists>q r. intDivision numerator denominator = Inr (q, r, None) \<and>
     numerator = q * denominator + r \<and>
     ((numerator = MinInt \<and> denominator = - 1) \<or>
        sint numerator = sint q * sint denominator + sint r) \<and>
     \<bar>sint r\<bar> < \<bar>sint denominator\<bar> \<and>
     (r = 0 \<or> (sint r < 0) = (sint numerator < 0))"
proof -
  have nz: "sint denominator \<noteq> 0" using assms by (simp add: sint_eq_0_iff)
  obtain r where r: "int_rem numerator denominator = Inr r"
      "sint r = sint numerator smod sint denominator"
    using int_rem_sint [OF assms] by blast
  define q :: go_int where "q = word_of_int (sint numerator sdiv sint denominator)"
  have q: "int_quo numerator denominator = Inr q"
    using assms by (simp add: int_quo_def q_def)
  have r_eq: "r = word_of_int (sint numerator smod sint denominator)"
    using r(1) assms by (simp add: int_rem_def)
  have res: "intDivision numerator denominator = Inr (q, r, None)"
    using assms q r(1) by (simp add: intDivision_def)
  have w: "numerator = q * denominator + r"
    unfolding q_def r_eq by (simp only: word_quo_rem)
  have m: "(numerator = MinInt \<and> denominator = - 1) \<or>
        sint numerator = sint q * sint denominator + sint r"
  proof (cases "numerator = MinInt \<and> denominator = - 1")
    case True then show ?thesis by simp
  next
    case False
    obtain q' where "int_quo numerator denominator = Inr q'"
      "sint q' = sint numerator sdiv sint denominator"
      using int_quo_sint [OF assms False] by blast
    with q have "sint q = sint numerator sdiv sint denominator" by simp
    then have "sint q * sint denominator + sint r = sint numerator"
      using r(2) by (simp only: sdiv_mult_smod_eq)
    then show ?thesis by simp
  qed
  have b: "\<bar>sint r\<bar> < \<bar>sint denominator\<bar>"
    using smod_bounds [OF nz, of "sint numerator"] r(2) by simp
  have s: "r = 0 \<or> (sint r < 0) = (sint numerator < 0)"
    using smod_sign [of "sint numerator" "sint denominator"] r(2) sint_eq_0_iff [of r]
    by auto
  from res w m b s show ?thesis by blast
qed

theorem intDivision_identity_witness:
  "(- 3 :: go_int) \<noteq> 0 \<and>
   intDivision (- 7) (- 3) = Inr (2, - 1, None) \<and>
   (\<exists>q r. intDivision (- 7) (- 3) = Inr (q, r, None) \<and>
      (- 7 :: go_int) = q * (- 3) + r \<and>
      sint (- 7 :: go_int) = sint q * sint (- 3 :: go_int) + sint r \<and>
      \<bar>sint r\<bar> < \<bar>sint (- 3 :: go_int)\<bar> \<and> sint r < 0)"
proof -
  have nz: "(- 3 :: go_int) \<noteq> 0" by simp
  have ev: "intDivision (- 7) (- 3) = Inr (2, - 1, None)"
    by (simp add: intDivision_def int_quo_def int_rem_def
        signed_divide_int_def signed_modulo_int_def)
  from intDivision_identity [OF nz, of "- 7"] ev nz show ?thesis
    by (simp add: MinInt_def)
qed

section \<open>Properties of main in tutorial 2\<close>

lemma Sprintf_quotient:
  "Sprintf ''The result of the integer division is %v\<newline>'' [a] =
     ''The result of the integer division is '' @ format_int a @ ''\<newline>''"
  by simp

lemma Sprintf_quotient_remainder:
  "Sprintf ''The result of the integer division is %v with remainder %v\<newline>'' [a, b] =
     ''The result of the integer division is '' @ format_int a @ '' with remainder '' @
       format_int b @ ''\<newline>''"
  by simp

lemma Sprintf_message:
  "Sprintf (''Cannot devide by Zero'' @ ''\<newline>'') [] = ''Cannot devide by Zero\<newline>''"
  by simp

lemma format_int_5: "format_int 5 = ''5''"
  by (simp add: format_int_def format_nat.simps digit_char_def)

text \<open>
  C4. In \<open>main\<close> the result of \<open>intDivision\<close> goes through one \<^verbatim>\<open>switch\<close>, of which
  exactly one branch prints: the error's message (and a newline) when the error is non-nil,
  the quotient-only message when the error is nil and the remainder is 0, and the message
  with quotient and remainder otherwise. With the program's operands 10 and 2, \<open>main\<close>
  prints \<^verbatim>\<open>Hello World\<close> and then the quotient-only message with result 5.
\<close>

theorem main_switch_branches:
  "(intDivision numerator denominator = Inr (result, reminder, err) \<longrightarrow>
      main_switch result reminder err out = out @
        (case err of
           Some e \<Rightarrow> error_Error e @ ''\<newline>''
         | None \<Rightarrow>
             if reminder = 0
             then ''The result of the integer division is '' @ format_int result @ ''\<newline>''
             else ''The result of the integer division is '' @ format_int result @
                    '' with remainder '' @ format_int reminder @ ''\<newline>'')) \<and>
   main out = Inr (out @ ''Hello World\<newline>The result of the integer division is 5\<newline>'')"
proof (intro conjI impI)
  assume h: "intDivision numerator denominator = Inr (result, reminder, err)"
  show "main_switch result reminder err out = out @
        (case err of
           Some e \<Rightarrow> error_Error e @ ''\<newline>''
         | None \<Rightarrow>
             if reminder = 0
             then ''The result of the integer division is '' @ format_int result @ ''\<newline>''
             else ''The result of the integer division is '' @ format_int result @
                    '' with remainder '' @ format_int reminder @ ''\<newline>'')"
  proof (cases "denominator = 0")
    case True
    with h have "err = Some (errors_New ''Cannot devide by Zero'')"
      by (simp add: intDivision_def)
    then show ?thesis
      using Sprintf_message by (simp add: main_switch_def Printf_def errors_New_def)
  next
    case False
    with h have "err = None"
      by (auto simp: intDivision_def int_quo_def int_rem_def)
    then show ?thesis
      by (simp add: main_switch_def Printf_def Sprintf_quotient Sprintf_quotient_remainder)
  qed
next
  have "intDivision 10 2 = Inr (5, 0, None)"
    by (simp add: intDivision_def int_quo_def int_rem_def
        signed_divide_int_def signed_modulo_int_def)
  then show "main out = Inr (out @ ''Hello World\<newline>The result of the integer division is 5\<newline>'')"
    by (simp add: main_def printMe_def Println_def main_switch_def Printf_def
        Sprintf_quotient format_int_5)
qed

theorem main_switch_branches_witness:
  "intDivision 7 0 = Inr (0, 0, Some (errorString ''Cannot devide by Zero'')) \<and>
   main_switch 0 0 (Some (errorString ''Cannot devide by Zero'')) [] = ''Cannot devide by Zero\<newline>'' \<and>
   intDivision 10 2 = Inr (5, 0, None) \<and>
   main_switch 5 0 None [] = ''The result of the integer division is 5\<newline>'' \<and>
   intDivision 7 2 = Inr (3, 1, None) \<and>
   main_switch 3 1 None [] = ''The result of the integer division is 3 with remainder 1\<newline>''"
proof -
  have a: "intDivision 7 0 = Inr (0, 0, Some (errorString ''Cannot devide by Zero''))"
    by (simp add: intDivision_def errors_New_def)
  have b: "intDivision 10 2 = Inr (5, 0, None)"
    by (simp add: intDivision_def int_quo_def int_rem_def
        signed_divide_int_def signed_modulo_int_def)
  have c: "intDivision 7 2 = Inr (3, 1, None)"
    by (simp add: intDivision_def int_quo_def int_rem_def
        signed_divide_int_def signed_modulo_int_def)
  have f: "format_int 5 = ''5''" "format_int 3 = ''3''" "format_int 1 = ''1''"
    by (simp_all add: format_int_def format_nat.simps digit_char_def)
  from main_switch_branches [of 7 0 0 0 "Some (errorString ''Cannot devide by Zero'')" "[]"]
       main_switch_branches [of 10 2 5 0 None "[]"]
       main_switch_branches [of 7 2 3 1 None "[]"]
       a b c f
  show ?thesis by simp
qed

section \<open>Properties of the API fragment\<close>

lemma canonical_Content_type: "CanonicalMIMEHeaderKey ''Content-type'' = ''Content-Type''"
  by code_simp

lemma format_int_400: "format_int StatusBadRequest = ''400''"
  by (simp add: StatusBadRequest_def format_int_def format_nat.simps digit_char_def)

lemma format_int_500: "format_int StatusInternalServerError = ''500''"
  by (simp add: StatusInternalServerError_def format_int_def format_nat.simps digit_char_def)

lemma json_Marshal_length: "Suc 0 < length (json_Marshal v)"
  by (simp add: json_Marshal_def json_quote_def)

lemma writeError_unstarted:
  assumes "status w = None" "header w ''Content-Length'' = None"
    "200 \<le> sint code" "sint code \<le> 999" "code \<noteq> 204" "code \<noteq> 304"
  shows "writeError w message code =
     Inr (w\<lparr>header := (header w)(''Content-Type'' \<mapsto> [''application/json'']),
            status := Some code,
            snapHeader := (header w)(''Content-Type'' \<mapsto> [''application/json'']),
            written := written w +
              length (json_Marshal \<lparr>Code = code, Message = message\<rparr> @ ''\<newline>''),
            body := body w @ json_Marshal \<lparr>Code = code, Message = message\<rparr> @ ''\<newline>'',
            sniffed := False\<rparr>)"
  using assms
  by (simp add: writeError_def Encoder_Encode_def Write_def WriteHeader_def Header_Set_def
      canonical_Content_type validWriteHeaderCode_def informationalCode_def
      bodyAllowedForStatus_def sniffsContentType_def declaredContentLength_def
      header_get_def Let_def)

lemma writeError_started:
  assumes "status w = Some s"
  shows "\<exists>w'. writeError w message code = Inr w' \<and> status w' = Some s"
  using assms
  by (simp add: writeError_def Encoder_Encode_def Write_def WriteHeader_def Header_Set_def
      Let_def split: option.splits)

lemma writeError_invalid_code:
  assumes "status w = None" "\<not> validWriteHeaderCode code"
  shows "writeError w message code = Inl (InvalidWriteHeaderCode code)"
  using assms by (simp add: writeError_def WriteHeader_def Header_Set_def)

text \<open>
  C3, as stated: for every message and every status code, \<open>writeError\<close> writes the code it
  was given as the status and the JSON encoding as the body. That fails in five ways. With
  the code 0 or 1000 \<^verbatim>\<open>WriteHeader\<close> panics and nothing is written. With the code 204,
  304 or 101 the status is written and the body is refused. With the code 103 an
  informational response is sent and the response itself gets the status 200. On a writer
  whose header was written before (here by a \<^verbatim>\<open>Write\<close> of \<^verbatim>\<open>hi\<close>) the status stays
  what it was. On a writer with a \<^verbatim>\<open>Content-Length\<close> of 2 set, the body, which is longer,
  is refused.
\<close>

theorem writeError_response_fails:
  "writeError fresh_writer ''x'' 0 = Inl (InvalidWriteHeaderCode 0) \<and>
   writeError fresh_writer ''x'' 1000 = Inl (InvalidWriteHeaderCode 1000) \<and>
   map_sum id status (writeError fresh_writer ''x'' 204) = Inr (Some 204) \<and>
   map_sum id body (writeError fresh_writer ''x'' 204) = Inr [] \<and>
   map_sum id status (writeError fresh_writer ''x'' 304) = Inr (Some 304) \<and>
   map_sum id body (writeError fresh_writer ''x'' 304) = Inr [] \<and>
   map_sum id status (writeError fresh_writer ''x'' 101) = Inr (Some 101) \<and>
   map_sum id body (writeError fresh_writer ''x'' 101) = Inr [] \<and>
   map_sum id status (writeError fresh_writer ''x'' 103) = Inr (Some 200) \<and>
   Write ''hi'' fresh_writer =
     Inr (fresh_writer\<lparr>status := Some 200, written := 2, body := ''hi'', sniffed := True\<rparr>,
          None) \<and>
   map_sum id status
     (writeError
        (fresh_writer\<lparr>status := Some 200, written := 2, body := ''hi'', sniffed := True\<rparr>)
        ''x'' 404) = Inr (Some 200) \<and>
   map_sum id status
     (writeError (fresh_writer\<lparr>header := [''Content-Length'' \<mapsto> [''2'']]\<rparr>) ''x'' 404) =
     Inr (Some 404) \<and>
   map_sum id body
     (writeError (fresh_writer\<lparr>header := [''Content-Length'' \<mapsto> [''2'']]\<rparr>) ''x'' 404) =
     Inr []"
  by (simp add: writeError_def Encoder_Encode_def Write_def WriteHeader_def Header_Set_def
      fresh_writer_def validWriteHeaderCode_def informationalCode_def bodyAllowedForStatus_def
      sniffsContentType_def Header_Get_def header_get_def declaredContentLength_def
      ParseInt_def digit_value_def canonical_Content_type StatusOK_def Let_def
      json_Marshal_length)

text \<open>
  C3, amended: for every message and every status code from 200 to 999 other than 204 and
  304, \<open>writeError\<close> on a writer whose header has not been written and on which no
  \<^verbatim>\<open>Content-Length\<close> is set returns, and then the status of the response is the code it
  was given, the content type header fixed for the response is \<^verbatim>\<open>application/json\<close> (the
  server sniffs none), and what it has added to the body is the JSON encoding of
  \<^verbatim>\<open>Error{Code: code, Message: message}\<close> followed by the newline that \<^verbatim>\<open>Encode\<close>
  ends it with.
\<close>

theorem writeError_response:
  assumes "status w = None" "header w ''Content-Length'' = None"
    "200 \<le> sint code" "sint code \<le> 999" "code \<noteq> 204" "code \<noteq> 304"
  shows "\<exists>w'. writeError w message code = Inr w' \<and>
           status w' = Some code \<and>
           snapHeader w' ''Content-Type'' = Some [''application/json''] \<and>
           \<not> sniffed w' \<and>
           body w' = body w @ json_Marshal \<lparr>Code = code, Message = message\<rparr> @ ''\<newline>''"
  by (simp add: writeError_unstarted [OF assms])

theorem writeError_response_witness:
  "status fresh_writer = None \<and> header fresh_writer ''Content-Length'' = None \<and>
   200 \<le> sint (404 :: go_int) \<and> sint (404 :: go_int) \<le> 999 \<and>
   (404 :: go_int) \<noteq> 204 \<and> (404 :: go_int) \<noteq> 304 \<and>
   (\<exists>w'. writeError fresh_writer ''no <user>'' 404 = Inr w' \<and>
      status w' = Some 404 \<and>
      snapHeader w' ''Content-Type'' = Some [''application/json''] \<and>
      \<not> sniffed w' \<and>
      body w' =
        ''{'' @ json_quote ''Code'' @ '':404,'' @ json_quote ''Message'' @ '':'' @
        [CHR 0x22] @ ''no '' @ [CHR 0x5C] @ ''u003cuser'' @ [CHR 0x5C] @ ''u003e'' @ [CHR 0x22] @
        ''}\<newline>'')"
proof -
  have s: "status fresh_writer = None" "header fresh_writer ''Content-Length'' = None"
    by (simp_all add: fresh_writer_def)
  have c: "200 \<le> sint (404 :: go_int)" "sint (404 :: go_int) \<le> 999"
      "(404 :: go_int) \<noteq> 204" "(404 :: go_int) \<noteq> 304"
    by simp_all
  have j: "json_Marshal \<lparr>Code = 404, Message = ''no <user>''\<rparr> =
     ''{'' @ json_quote ''Code'' @ '':404,'' @ json_quote ''Message'' @ '':'' @
     [CHR 0x22] @ ''no '' @ [CHR 0x5C] @ ''u003cuser'' @ [CHR 0x5C] @ ''u003e'' @ [CHR 0x22] @ ''}''"
    by (simp add: json_Marshal_def json_quote_def json_escape_byte_def hex_char_def
        format_int_def format_nat.simps digit_char_def)
  from writeError_response [OF s c, of "''no <user>''"] s c j show ?thesis
    by (auto simp: fresh_writer_def)
qed

text \<open>
  C9, as stated: for every call the handlers write the status 400 or 500 and a body with
  the message. On a writer whose header was written before (here by a \<^verbatim>\<open>Write\<close> of
  \<^verbatim>\<open>hi\<close>, which gave the response the status 200) both leave that status. On a writer
  with a \<^verbatim>\<open>Content-Length\<close> of 2 set, both write their status and their body, which is
  longer, is refused.
\<close>

theorem error_handlers_response_fails:
  "Write ''hi'' fresh_writer =
     Inr (fresh_writer\<lparr>status := Some 200, written := 2, body := ''hi'', sniffed := True\<rparr>,
          None) \<and>
   map_sum id status
     (InternalErrorHandler
        (fresh_writer\<lparr>status := Some 200, written := 2, body := ''hi'', sniffed := True\<rparr>)) =
     Inr (Some 200) \<and>
   map_sum id status
     (RequestErrorHandler
        (fresh_writer\<lparr>status := Some 200, written := 2, body := ''hi'', sniffed := True\<rparr>)
        (Some (errors_New ''username missing''))) = Inr (Some 200) \<and>
   map_sum id status
     (InternalErrorHandler (fresh_writer\<lparr>header := [''Content-Length'' \<mapsto> [''2'']]\<rparr>)) =
     Inr (Some 500) \<and>
   map_sum id body
     (InternalErrorHandler (fresh_writer\<lparr>header := [''Content-Length'' \<mapsto> [''2'']]\<rparr>)) =
     Inr [] \<and>
   map_sum id status
     (RequestErrorHandler (fresh_writer\<lparr>header := [''Content-Length'' \<mapsto> [''2'']]\<rparr>)
        (Some (errors_New ''username missing''))) = Inr (Some 400) \<and>
   map_sum id body
     (RequestErrorHandler (fresh_writer\<lparr>header := [''Content-Length'' \<mapsto> [''2'']]\<rparr>)
        (Some (errors_New ''username missing''))) = Inr []"
  by (simp add: InternalErrorHandler_def RequestErrorHandler_def writeError_def Encoder_Encode_def
      Write_def WriteHeader_def Header_Set_def fresh_writer_def validWriteHeaderCode_def
      informationalCode_def bodyAllowedForStatus_def sniffsContentType_def Header_Get_def
      header_get_def declaredContentLength_def ParseInt_def digit_value_def
      canonical_Content_type StatusOK_def StatusInternalServerError_def StatusBadRequest_def
      Let_def json_Marshal_length)

text \<open>
  C9, amended: on a writer whose header has not been written and on which no
  \<^verbatim>\<open>Content-Length\<close> is set, \<open>RequestErrorHandler\<close> with any error returns with the status
  400 and has added to the body the JSON object with code 400 and that error's message;
  \<open>InternalErrorHandler\<close> returns with the status 500 and has added the JSON object with
  code 500 and the fixed message \<^verbatim>\<open>An Unexpected error ocurred\<close>. Neither takes a request.
\<close>

theorem error_handlers_response:
  assumes "status w = None" "header w ''Content-Length'' = None"
  shows "(\<exists>w'. RequestErrorHandler w (Some e) = Inr w' \<and> status w' = Some 400 \<and>
            body w' = body w @ ''{'' @ json_quote ''Code'' @ '':400,'' @ json_quote ''Message'' @
              '':'' @ json_quote (error_Error e) @ ''}\<newline>'') \<and>
         (\<exists>w'. InternalErrorHandler w = Inr w' \<and> status w' = Some 500 \<and>
            body w' = body w @ ''{'' @ json_quote ''Code'' @ '':500,'' @ json_quote ''Message'' @
              '':'' @ json_quote ''An Unexpected error ocurred'' @ ''}\<newline>'')"
proof -
  have a: "\<exists>w'. writeError w m StatusBadRequest = Inr w' \<and> status w' = Some StatusBadRequest \<and>
      body w' = body w @ json_Marshal \<lparr>Code = StatusBadRequest, Message = m\<rparr> @ ''\<newline>''" for m
    by (subst writeError_unstarted [OF assms]) (simp_all add: StatusBadRequest_def)
  have b: "\<exists>w'. writeError w m StatusInternalServerError = Inr w' \<and>
      status w' = Some StatusInternalServerError \<and>
      body w' = body w @ json_Marshal \<lparr>Code = StatusInternalServerError, Message = m\<rparr> @
        ''\<newline>''" for m
    by (subst writeError_unstarted [OF assms]) (simp_all add: StatusInternalServerError_def)
  from a [of "error_Error e"] b [of "''An Unexpected error ocurred''"] show ?thesis
    by (simp add: RequestErrorHandler_def InternalErrorHandler_def
        json_Marshal_def format_int_400 format_int_500)
       (simp add: StatusBadRequest_def StatusInternalServerError_def)
qed

theorem error_handlers_response_witness:
  "status fresh_writer = None \<and> header fresh_writer ''Content-Length'' = None \<and>
   (\<exists>w'. RequestErrorHandler fresh_writer (Some (errors_New ''username missing'')) = Inr w' \<and>
      status w' = Some 400 \<and>
      body w' = ''{'' @ json_quote ''Code'' @ '':400,'' @ json_quote ''Message'' @ '':'' @
        [CHR 0x22] @ ''username missing'' @ [CHR 0x22] @ ''}\<newline>'') \<and>
   (\<exists>w'. InternalErrorHandler fresh_writer = Inr w' \<and>
      status w' = Some 500 \<and>
      body w' = ''{'' @ json_quote ''Code'' @ '':500,'' @ json_quote ''Message'' @ '':'' @
        [CHR 0x22] @ ''An Unexpected error ocurred'' @ [CHR 0x22] @ ''}\<newline>'')"
proof -
  have s: "status fresh_writer = None" "header fresh_writer ''Content-Length'' = None"
    by (simp_all add: fresh_writer_def)
  have q1: "json_quote ''username missing'' = [CHR 0x22] @ ''username missing'' @ [CHR 0x22]"
    by (simp add: json_quote_def json_escape_byte_def)
  have q2: "json_quote ''An Unexpected error ocurred'' =
      [CHR 0x22] @ ''An Unexpected error ocurred'' @ [CHR 0x22]"
    by (simp add: json_quote_def json_escape_byte_def)
  from error_handlers_response [OF s, of "errors_New ''username missing''"] s q1 q2
  show ?thesis by (simp add: errors_New_def fresh_writer_def)
qed

end
